theory Spec2Isabelle
  imports Main "HOL-Library.Sublist" "HOL-Library.Multiset"
begin

section \<open>Data model\<close>

text \<open>
  Modelled from the spec: the \<open>Job\<close> interface of \<open>src/types\<close>, which is imported by both
  components but is not among the sources. The fields are those of section 3 of the
  specification. A JavaScript string is a list of characters. The four fields that the
  Dashboard reads without a guard (\<open>company\<close>, \<open>position\<close>, \<open>location\<close>, \<open>status\<close>) are
  strings; \<open>status\<close> is a string at run time (\<open>JobStatus\<close> is a union of string literals), so
  a job read from the database may carry any status. Every other field is an option, with
  \<open>None\<close> for \<open>undefined\<close>: the form works on a \<open>Partial<Job>\<close>, and the objects it builds
  have no \<open>id\<close>, \<open>appliedDate\<close>, \<open>createdAt\<close>, \<open>updatedAt\<close> or \<open>userId\<close> before the handlers add them.
  The fields \<open>id\<close> and \<open>notes\<close> are written \<open>job_id\<close> and \<open>job_notes\<close>.
\<close>

record job =
  job_id :: "string option"
  company :: string
  position :: string
  status :: string
  location :: string
  salary :: "string option"
  applicationDeadline :: "string option"
  interviewDate :: "string option"
  job_notes :: "string option"
  url :: "string option"
  appliedDate :: "string option"
  createdAt :: "string option"
  updatedAt :: "string option"
  userId :: "string option"

text \<open>
  Modelled from the spec: the current user exposed by the authentication context
  (\<open>src/contexts/AuthContext\<close>, not among the sources), of which the Dashboard reads only
  \<open>uid\<close>. Without a logged-in user the context gives \<open>null\<close>, here \<open>None\<close>.
\<close>

record user =
  uid :: string

text \<open>The five values of \<open>JobStatus\<close>, in the order of the Dashboard's boards.\<close>

definition PENDING :: string where "PENDING = ''PENDING''"
definition APPLIED :: string where "APPLIED = ''APPLIED''"
definition INTERVIEWING :: string where "INTERVIEWING = ''INTERVIEWING''"
definition ACCEPTED :: string where "ACCEPTED = ''ACCEPTED''"
definition REJECTED :: string where "REJECTED = ''REJECTED''"

definition JobStatus :: "string list" where
  "JobStatus = [PENDING, APPLIED, INTERVIEWING, ACCEPTED, REJECTED]"

section \<open>Dashboard: search filter\<close>

text \<open>
  \<open>String.prototype.includes\<close> with its default start position: the search string occurs
  in the receiver at some index. \<open>startsWith s q\<close> compares \<open>q\<close> with the characters of
  \<open>s\<close> from index 0; \<open>str_includes\<close> tries every index from the left.
\<close>

fun startsWith :: "string \<Rightarrow> string \<Rightarrow> bool" where
  "startsWith s [] = True"
| "startsWith [] (q # qs) = False"
| "startsWith (c # cs) (q # qs) = (c = q \<and> startsWith cs qs)"

fun str_includes :: "string \<Rightarrow> string \<Rightarrow> bool" where
  "str_includes [] q = startsWith [] q"
| "str_includes (c # cs) q = (startsWith (c # cs) q \<or> str_includes cs q)"

text \<open>
  Lines 92 to 96 of \<open>Dashboard.tsx\<close>. \<open>String.prototype.toLowerCase\<close> is a built-in of the
  language whose case-mapping table is not part of the repository; it is the parameter
  \<open>toLowerCase\<close>, so that every statement below holds for whatever mapping the engine
  implements.
\<close>

definition job_matches :: "(string \<Rightarrow> string) \<Rightarrow> string \<Rightarrow> job \<Rightarrow> bool" where
  "job_matches toLowerCase search job \<longleftrightarrow>
     str_includes (toLowerCase (company job)) (toLowerCase search) \<or>
     str_includes (toLowerCase (position job)) (toLowerCase search) \<or>
     str_includes (toLowerCase (location job)) (toLowerCase search)"

definition filteredJobs :: "(string \<Rightarrow> string) \<Rightarrow> job list \<Rightarrow> string \<Rightarrow> job list" where
  "filteredJobs toLowerCase jobs search = filter (job_matches toLowerCase search) jobs"

text \<open>
  The specification's wording, for comparison with the code: a field contains the search
  string as a case-insensitive substring when, after both are lower-cased, the search
  string is a contiguous part of the field.
\<close>

definition ci_substring :: "(string \<Rightarrow> string) \<Rightarrow> string \<Rightarrow> string \<Rightarrow> bool" where
  "ci_substring toLowerCase search field \<longleftrightarrow>
     (\<exists>before after. toLowerCase field = before @ toLowerCase search @ after)"

text \<open>A concrete case mapping for the ASCII letters, used to evaluate examples.\<close>

definition lower_ascii :: "char \<Rightarrow> char" where
  "lower_ascii c =
     (case map_of (zip ''ABCDEFGHIJKLMNOPQRSTUVWXYZ'' ''abcdefghijklmnopqrstuvwxyz'') c of
        Some l \<Rightarrow> l
      | None \<Rightarrow> c)"

definition toLowerCase_ascii :: "string \<Rightarrow> string" where
  "toLowerCase_ascii s = map lower_ascii s"

section \<open>Dashboard: status boards\<close>





section \<open>JobForm\<close>

text \<open>
  The operator \<open>||\<close> on a value that is a string or \<open>undefined\<close>: the left operand when it
  is truthy, the right one when it is \<open>undefined\<close> or the empty string.
\<close>

definition js_or :: "string option \<Rightarrow> string \<Rightarrow> string" where
  "js_or v d = (case v of None \<Rightarrow> d | Some s \<Rightarrow> if s = [] then d else s)"

text \<open>
  Lines 12 to 24 of \<open>JobForm\<close>: the initial form data is the job being edited, or the
  defaults when the form is opened without one.
\<close>

definition initial_formData :: "job option \<Rightarrow> job" where
  "initial_formData job =
     (case job of
        Some j \<Rightarrow> j
      | None \<Rightarrow>
          \<lparr>job_id = None, company = '''', position = '''', status = PENDING, location = '''',
           salary = Some '''', applicationDeadline = Some '''', interviewDate = Some '''',
           job_notes = Some '''', url = Some '''', appliedDate = None, createdAt = None,
           updatedAt = None, userId = None\<rparr>)"

text \<open>
  The \<open>option\<close> elements of the status \<open>select\<close> (lines 107 to 111), named by their labels
  and in the order of the source, with the \<open>value\<close> attribute of each.
\<close>

datatype status_option =
  Opt_Wishlist | Opt_Applied | Opt_Interviewing | Opt_Rejected | Opt_Accepted

fun option_value :: "status_option \<Rightarrow> string" where
  "option_value Opt_Wishlist = PENDING"
| "option_value Opt_Applied = APPLIED"
| "option_value Opt_Interviewing = INTERVIEWING"
| "option_value Opt_Rejected = REJECTED"
| "option_value Opt_Accepted = ACCEPTED"

text \<open>
  The \<open>onChange\<close> handlers of the form controls: each replaces one field of the form data
  by the value of its control. The value of the \<open>select\<close> is the value of one of its options.
\<close>

datatype form_event =
  ChangeCompany string
| ChangePosition string
| ChangeLocation string
| ChangeSalary string
| ChangeStatus status_option
| ChangeApplicationDeadline string
| ChangeInterviewDate string
| ChangeUrl string
| ChangeNotes string

fun onChange :: "form_event \<Rightarrow> job \<Rightarrow> job" where
  "onChange (ChangeCompany v) formData = formData\<lparr>company := v\<rparr>"
| "onChange (ChangePosition v) formData = formData\<lparr>position := v\<rparr>"
| "onChange (ChangeLocation v) formData = formData\<lparr>location := v\<rparr>"
| "onChange (ChangeSalary v) formData = formData\<lparr>salary := Some v\<rparr>"
| "onChange (ChangeStatus opt) formData = formData\<lparr>status := option_value opt\<rparr>"
| "onChange (ChangeApplicationDeadline v) formData = formData\<lparr>applicationDeadline := Some v\<rparr>"
| "onChange (ChangeInterviewDate v) formData = formData\<lparr>interviewDate := Some v\<rparr>"
| "onChange (ChangeUrl v) formData = formData\<lparr>url := Some v\<rparr>"
| "onChange (ChangeNotes v) formData = formData\<lparr>job_notes := Some v\<rparr>"

definition edit_form :: "form_event list \<Rightarrow> job \<Rightarrow> job" where
  "edit_form events formData = foldl (\<lambda>fd e. onChange e fd) formData events"

text \<open>
  Lines 26 to 35 of \<open>JobForm\<close>: the object handed to \<open>onSubmit\<close>. \<open>job\<close> is the property of
  the form (the job being edited, if any), \<open>randomUUID\<close> the result of
  \<open>crypto.randomUUID()\<close> and \<open>now\<close> that of \<open>new Date().toISOString()\<close>.
\<close>

definition JobForm_handleSubmit :: "job option \<Rightarrow> job \<Rightarrow> string \<Rightarrow> string \<Rightarrow> job" where
  "JobForm_handleSubmit job formData randomUUID now =
     formData\<lparr>job_id := Some (js_or (Option.bind job job_id) randomUUID),
              appliedDate := Some (js_or (Option.bind job appliedDate) now),
              job_notes := Some (js_or (job_notes formData) '''')\<rparr>"

section \<open>Dashboard: state and effects\<close>

datatype toast = Toast_success string | Toast_error string

text \<open>
  The calls into the database, authentication and routing libraries. Their code is not
  part of the repository; a call is recorded, has the effect its name says, and its failure
  is decided by the environment.
\<close>

datatype call =
  EnableNetwork
| OnSnapshot string
| Unsubscribe
| DisableNetwork
| UpdateDoc "string option" job
| AddDoc job
| Logout
| Navigate string

datatype exn = Failure call

text \<open>
  What the environment does with the calls of one handler run: each asynchronous call
  either completes or is rejected (and \<open>onSnapshot\<close> either returns or throws).
\<close>

record outcomes =
  enableNetwork_ok :: bool
  onSnapshot_ok :: bool
  updateDoc_ok :: bool
  addDoc_ok :: bool
  disableNetwork_ok :: bool
  logout_ok :: bool

text \<open>
  The state of the component (\<open>jobs\<close>, \<open>showForm\<close>, \<open>editingJob\<close>, \<open>search\<close>) with what its
  handlers act upon: whether the database network is enabled, whether the snapshot listener
  is attached, the cleanup function of the effect (\<open>None\<close> when the effect returned none,
  otherwise the settled value of the promise \<open>unsubscribe\<close>: rejected, or resolved with
  an unsubscribe function, \<open>True\<close>, or with \<open>undefined\<close>, \<open>False\<close>), the toasts shown, the
  console, the calls made, the last route navigated to and the rejections nobody handled.
\<close>

record dashboard =
  jobs :: "job list"
  showForm :: bool
  editingJob :: "job option"
  search :: string
  network :: bool
  listening :: bool
  cleanup :: "(exn + bool) option"
  toasts :: "toast list"
  console :: "string list"
  calls :: "call list"
  route :: "string option"
  unhandled :: "exn list"

type_synonym 'a result = "(exn + 'a) \<times> dashboard"

definition enableNetwork :: "outcomes \<Rightarrow> dashboard \<Rightarrow> unit result" where
  "enableNetwork oc w =
     (let w' = w\<lparr>calls := calls w @ [EnableNetwork]\<rparr>
      in if enableNetwork_ok oc then (Inr (), w'\<lparr>network := True\<rparr>)
         else (Inl (Failure EnableNetwork), w'))"

definition disableNetwork :: "outcomes \<Rightarrow> dashboard \<Rightarrow> unit result" where
  "disableNetwork oc w =
     (let w' = w\<lparr>calls := calls w @ [DisableNetwork]\<rparr>
      in if disableNetwork_ok oc then (Inr (), w'\<lparr>network := False\<rparr>)
         else (Inl (Failure DisableNetwork), w'))"

definition onSnapshot :: "string \<Rightarrow> outcomes \<Rightarrow> dashboard \<Rightarrow> bool result" where
  "onSnapshot u oc w =
     (let w' = w\<lparr>calls := calls w @ [OnSnapshot u]\<rparr>
      in if onSnapshot_ok oc then (Inr True, w'\<lparr>listening := True\<rparr>)
         else (Inl (Failure (OnSnapshot u)), w'))"

definition unsubscribe :: "dashboard \<Rightarrow> dashboard" where
  "unsubscribe w = w\<lparr>calls := calls w @ [Unsubscribe], listening := False\<rparr>"

definition updateDoc :: "string option \<Rightarrow> job \<Rightarrow> outcomes \<Rightarrow> dashboard \<Rightarrow> unit result" where
  "updateDoc path data oc w =
     (let w' = w\<lparr>calls := calls w @ [UpdateDoc path data]\<rparr>
      in if updateDoc_ok oc then (Inr (), w') else (Inl (Failure (UpdateDoc path data)), w'))"

definition addDoc :: "job \<Rightarrow> outcomes \<Rightarrow> dashboard \<Rightarrow> unit result" where
  "addDoc data oc w =
     (let w' = w\<lparr>calls := calls w @ [AddDoc data]\<rparr>
      in if addDoc_ok oc then (Inr (), w') else (Inl (Failure (AddDoc data)), w'))"

definition logout :: "outcomes \<Rightarrow> dashboard \<Rightarrow> unit result" where
  "logout oc w =
     (let w' = w\<lparr>calls := calls w @ [Logout]\<rparr>
      in if logout_ok oc then (Inr (), w') else (Inl (Failure Logout), w'))"

definition navigate :: "string \<Rightarrow> dashboard \<Rightarrow> dashboard" where
  "navigate to w = w\<lparr>calls := calls w @ [Navigate to], route := Some to\<rparr>"

definition toast_success :: "string \<Rightarrow> dashboard \<Rightarrow> dashboard" where
  "toast_success msg w = w\<lparr>toasts := toasts w @ [Toast_success msg]\<rparr>"

definition toast_error :: "string \<Rightarrow> dashboard \<Rightarrow> dashboard" where
  "toast_error msg w = w\<lparr>toasts := toasts w @ [Toast_error msg]\<rparr>"

definition console_error :: "string \<Rightarrow> dashboard \<Rightarrow> dashboard" where
  "console_error msg w = w\<lparr>console := console w @ [msg]\<rparr>"

text \<open>
  \<open>try { body } catch (error) { handler }\<close>: an exception of the body, with the state the
  body had reached, goes to the handler; the result of the statement is that of the body
  or of the handler.
\<close>

definition try_catch ::
  "(dashboard \<Rightarrow> 'a result) \<Rightarrow> (exn \<Rightarrow> dashboard \<Rightarrow> 'a result) \<Rightarrow> dashboard \<Rightarrow> 'a result" where
  "try_catch body handler w =
     (case body w of (Inl e, w') \<Rightarrow> handler e w' | (Inr v, w') \<Rightarrow> (Inr v, w'))"

text \<open>Sequencing of two awaited steps: an exception of the first skips the second.\<close>

definition and_then ::
  "(dashboard \<Rightarrow> 'a result) \<Rightarrow> ('a \<Rightarrow> dashboard \<Rightarrow> 'b result) \<Rightarrow> dashboard \<Rightarrow> 'b result" where
  "and_then first second w =
     (case first w of (Inl e, w') \<Rightarrow> (Inl e, w') | (Inr v, w') \<Rightarrow> second v w')"

section \<open>Dashboard: the subscription effect\<close>

text \<open>
  Lines 28 to 43. The result is the unsubscribe function of \<open>onSnapshot\<close> (\<open>True\<close>), or
  \<open>undefined\<close> (\<open>False\<close>) when the handler of the \<open>catch\<close> ran.
\<close>

definition setupFirestore :: "user \<Rightarrow> outcomes \<Rightarrow> dashboard \<Rightarrow> bool result" where
  "setupFirestore u oc =
     try_catch
       (and_then (enableNetwork oc) (\<lambda>_. onSnapshot (uid u) oc))
       (\<lambda>error w. (Inr False, toast_error ''Error loading data''
                                 (console_error ''Error setting up Firestore:'' w)))"

text \<open>
  Lines 24 to 54, the body of the effect: nothing without a user; otherwise
  \<open>setupFirestore\<close> is started and a cleanup is returned that waits for its promise.
\<close>

definition useEffect :: "user option \<Rightarrow> outcomes \<Rightarrow> dashboard \<Rightarrow> dashboard" where
  "useEffect usr oc w =
     (case usr of
        None \<Rightarrow> w
      | Some u \<Rightarrow> (case setupFirestore u oc w of (r, w') \<Rightarrow> w'\<lparr>cleanup := Some r\<rparr>))"

text \<open>
  Lines 48 to 53, the cleanup: once the promise is resolved, \<open>unsub?.()\<close> and then
  \<open>disableNetwork(db)\<close>, whose promise is dropped; a rejected promise skips the callback.
\<close>

definition useEffect_cleanup :: "outcomes \<Rightarrow> dashboard \<Rightarrow> dashboard" where
  "useEffect_cleanup oc w =
     (case cleanup w of
        None \<Rightarrow> w
      | Some (Inl e) \<Rightarrow> w\<lparr>cleanup := None, unhandled := unhandled w @ [e]\<rparr>
      | Some (Inr unsub) \<Rightarrow>
          (case disableNetwork oc (if unsub then unsubscribe w else w) of
             (Inl e, w') \<Rightarrow> w'\<lparr>cleanup := None, unhandled := unhandled w' @ [e]\<rparr>
           | (Inr _, w') \<Rightarrow> w'\<lparr>cleanup := None\<rparr>))"


text \<open>
  Lines 32 to 38, the snapshot callback: \<open>{id: doc.id, ...doc.data()}\<close> takes the
  identifier of the document unless the data has an \<open>id\<close> field of its own.
\<close>

definition onSnapshot_callback :: "(string \<times> job) list \<Rightarrow> dashboard \<Rightarrow> dashboard" where
  "onSnapshot_callback docs w =
     w\<lparr>jobs := map (\<lambda>(doc_id, data).
                  data\<lparr>job_id := Some (case job_id data of None \<Rightarrow> doc_id | Some i \<Rightarrow> i)\<rparr>) docs\<rparr>"

section \<open>Dashboard: the handlers\<close>

text \<open>
  Lines 56 to 80. \<open>now\<close> and \<open>now'\<close> are the successive readings of
  \<open>new Date().toISOString()\<close>; the update reads the clock once, the creation twice.
\<close>

definition handleSubmit ::
  "user option \<Rightarrow> job \<Rightarrow> string \<Rightarrow> string \<Rightarrow> outcomes \<Rightarrow> dashboard \<Rightarrow> unit result" where
  "handleSubmit usr job now now' oc w =
     try_catch
       (and_then
          (if editingJob w \<noteq> None
           then and_then
                  (updateDoc (job_id job)
                     (job\<lparr>userId := map_option uid usr, updatedAt := Some now\<rparr>) oc)
                  (\<lambda>_ w1. (Inr (), toast_success ''Job updated successfully'' w1))
           else and_then
                  (addDoc
                     (job\<lparr>userId := map_option uid usr, createdAt := Some now,
                          updatedAt := Some now'\<rparr>) oc)
                  (\<lambda>_ w1. (Inr (), toast_success ''Job added successfully'' w1)))
          (\<lambda>_ w2. (Inr (), w2\<lparr>showForm := False, editingJob := None\<rparr>)))
       (\<lambda>error w3. (Inr (), toast_error ''Error saving job''
                               (console_error ''Error saving job:'' w3)))
       w"

text \<open>Lines 82 to 90.\<close>

definition handleLogout :: "outcomes \<Rightarrow> dashboard \<Rightarrow> unit result" where
  "handleLogout oc =
     try_catch
       (and_then (disableNetwork oc)
          (\<lambda>_. and_then (logout oc) (\<lambda>_ w. (Inr (), navigate ''/'' w))))
       (\<lambda>error w. (Inr (), toast_error ''Error logging out'' w))"

text \<open>Lines 188 to 191, the \<open>onClose\<close> of the form.\<close>

definition onClose :: "dashboard \<Rightarrow> dashboard" where
  "onClose w = w\<lparr>showForm := False, editingJob := None\<rparr>"

text \<open>
  A submission of the form, from the form data to the state of the Dashboard: the form
  (whose \<open>job\<close> property is \<open>editingJob\<close>, line 186) builds the job, hands it to
  \<open>handleSubmit\<close> and closes.
\<close>

definition submit_form ::
  "user option \<Rightarrow> job \<Rightarrow> string \<Rightarrow> string \<Rightarrow> string \<Rightarrow> string \<Rightarrow> outcomes \<Rightarrow>
   dashboard \<Rightarrow> dashboard" where
  "submit_form usr formData randomUUID formNow now now' oc w =
     onClose (snd (handleSubmit usr
                     (JobForm_handleSubmit (editingJob w) formData randomUUID formNow)
                     now now' oc w))"

text \<open>The events of the Dashboard, and a run of it from a state.\<close>

datatype event =
  Mount "user option" outcomes
| Unmount outcomes
| Snapshot "(string \<times> job) list"
| ClickAdd
| ClickEdit job
| TypeSearch string
| SubmitForm "user option" job string string string string outcomes
| CloseForm
| ClickLogout outcomes

fun step :: "dashboard \<Rightarrow> event \<Rightarrow> dashboard" where
  "step w (Mount usr oc) = useEffect usr oc w"
| "step w (Unmount oc) = useEffect_cleanup oc w"
| "step w (Snapshot docs) = onSnapshot_callback docs w"
| "step w ClickAdd = w\<lparr>showForm := True\<rparr>"
| "step w (ClickEdit j) = w\<lparr>editingJob := Some j\<rparr>"
| "step w (TypeSearch s) = w\<lparr>search := s\<rparr>"
| "step w (SubmitForm usr fd u t n n' oc) = submit_form usr fd u t n n' oc w"
| "step w CloseForm = onClose w"
| "step w (ClickLogout oc) = snd (handleLogout oc w)"

definition run :: "dashboard \<Rightarrow> event list \<Rightarrow> dashboard" where
  "run w events = foldl step w events"

text \<open>An event other than the mounting and unmounting of the Dashboard.\<close>

fun while_mounted :: "event \<Rightarrow> bool" where
  "while_mounted (Mount usr oc) = False"
| "while_mounted (Unmount oc) = False"
| "while_mounted e = True"

section \<open>Notions used by the statements\<close>



text \<open>The calls made between a state and a later one.\<close>

definition new_calls :: "dashboard \<Rightarrow> dashboard \<Rightarrow> call list" where
  "new_calls w w' = drop (length (calls w)) (calls w')"

text \<open>Whether the environment fails a call; unsubscribing and navigating cannot fail.\<close>

fun rejected :: "outcomes \<Rightarrow> call \<Rightarrow> bool" where
  "rejected oc EnableNetwork = (\<not> enableNetwork_ok oc)"
| "rejected oc (OnSnapshot u) = (\<not> onSnapshot_ok oc)"
| "rejected oc Unsubscribe = False"
| "rejected oc DisableNetwork = (\<not> disableNetwork_ok oc)"
| "rejected oc (UpdateDoc path data) = (\<not> updateDoc_ok oc)"
| "rejected oc (AddDoc data) = (\<not> addDoc_ok oc)"
| "rejected oc Logout = (\<not> logout_ok oc)"
| "rejected oc (Navigate to) = False"


text \<open>
  What the specification says of a failure in a handler, for the result of a handler run
  from the state \<open>w\<close> under the outcomes \<open>oc\<close>: the handler returns (no exception leaves it);
  if a call it made was rejected, exactly one toast with the message of the handler has
  been added, and otherwise none with that message; and no call was made twice.
\<close>

definition caught :: "string \<Rightarrow> outcomes \<Rightarrow> dashboard \<Rightarrow> 'a result \<Rightarrow> bool" where
  "caught msg oc w r \<longleftrightarrow>
     (\<exists>v. fst r = Inr v)
     \<and> (if \<exists>c \<in> set (new_calls w (snd r)). rejected oc c
        then toasts (snd r) = toasts w @ [Toast_error msg]
        else Toast_error msg \<notin> set (drop (length (toasts w)) (toasts (snd r))))
     \<and> distinct (new_calls w (snd r))"

section \<open>Examples\<close>

definition job_acme :: job where
  "job_acme =
     \<lparr>job_id = Some ''7b1f'', company = ''Acme Corp'', position = ''Engineer'',
      status = APPLIED, location = ''Berlin'', salary = None, applicationDeadline = None,
      interviewDate = None, job_notes = Some ''referral'', url = None,
      appliedDate = Some ''2024-01-05T10:00:00.000Z'',
      createdAt = Some ''2024-01-05T10:00:01.000Z'',
      updatedAt = Some ''2024-01-05T10:00:01.000Z'', userId = Some ''alice''\<rparr>"

definition job_initech :: job where
  "job_initech =
     \<lparr>job_id = Some ''c2d9'', company = ''Initech'', position = ''Analyst'',
      status = ''ARCHIVED'', location = ''Austin'', salary = Some ''90k'',
      applicationDeadline = None, interviewDate = None, job_notes = None, url = None,
      appliedDate = Some '''', createdAt = None, updatedAt = None, userId = Some ''bob''\<rparr>"

definition dashboard0 :: dashboard where
  "dashboard0 =
     \<lparr>jobs = [], showForm = False, editingJob = None, search = '''', network = True,
      listening = False, cleanup = None, toasts = [], console = [], calls = [],
      route = None, unhandled = []\<rparr>"

definition all_ok :: outcomes where
  "all_ok =
     \<lparr>enableNetwork_ok = True, onSnapshot_ok = True, updateDoc_ok = True, addDoc_ok = True,
      disableNetwork_ok = True, logout_ok = True\<rparr>"

definition all_fail :: outcomes where
  "all_fail =
     \<lparr>enableNetwork_ok = False, onSnapshot_ok = False, updateDoc_ok = False,
      addDoc_ok = False, disableNetwork_ok = False, logout_ok = False\<rparr>"

section \<open>The system around the Dashboard\<close>












section \<open>Search filter: proofs\<close>

lemma startsWith_iff: "startsWith s q \<longleftrightarrow> (\<exists>after. s = q @ after)"
  by (induction s q rule: startsWith.induct) auto

lemma includes_iff: "str_includes s q \<longleftrightarrow> (\<exists>before after. s = before @ q @ after)"
proof (induction s)
  case Nil
  show ?case by (simp add: startsWith_iff)
next
  case (Cons c cs)
  show ?case
  proof
    assume "str_includes (c # cs) q"
    then consider "startsWith (c # cs) q" | "str_includes cs q" by auto
    then show "\<exists>before after. c # cs = before @ q @ after"
    proof cases
      case 1
      then obtain after where "c # cs = q @ after" by (auto simp: startsWith_iff)
      then have "c # cs = [] @ q @ after" by simp
      then show ?thesis by blast
    next
      case 2
      with Cons.IH obtain before after where "cs = before @ q @ after" by auto
      then have "c # cs = (c # before) @ q @ after" by simp
      then show ?thesis by blast
    qed
  next
    assume "\<exists>before after. c # cs = before @ q @ after"
    then obtain before after where eq: "c # cs = before @ q @ after" by auto
    show "str_includes (c # cs) q"
    proof (cases before)
      case Nil
      with eq have "startsWith (c # cs) q" by (auto simp: startsWith_iff)
      then show ?thesis by simp
    next
      case (Cons b bs)
      with eq have "cs = bs @ q @ after" by simp
      with Cons.IH have "str_includes cs q" by blast
      then show ?thesis by simp
    qed
  qed
qed

lemma includes_empty: "str_includes s []"
  by (induction s) auto

lemma job_matches_iff:
  "job_matches lc q j \<longleftrightarrow>
     ci_substring lc q (company j) \<or> ci_substring lc q (position j) \<or>
     ci_substring lc q (location j)"
  by (simp add: job_matches_def ci_substring_def includes_iff)

text \<open>
  Claim C1. For every list of jobs and every search string held by the Dashboard, its
  filtered list is the list of exactly those jobs whose company, position or location
  contains the search string as a case-insensitive substring, each as often as it occurs
  in the list; a job none of whose three fields contains it is not in the filtered list.
\<close>

theorem filteredJobs_exact:
  "filteredJobs toLowerCase (jobs w) (search w) =
     filter (\<lambda>j. ci_substring toLowerCase (search w) (company j) \<or>
                 ci_substring toLowerCase (search w) (position j) \<or>
                 ci_substring toLowerCase (search w) (location j)) (jobs w)
   \<and> set (filteredJobs toLowerCase (jobs w) (search w)) =
     {j. j \<in> set (jobs w) \<and>
         (ci_substring toLowerCase (search w) (company j) \<or>
          ci_substring toLowerCase (search w) (position j) \<or>
          ci_substring toLowerCase (search w) (location j))}"
proof -
  have "job_matches toLowerCase (search w) =
        (\<lambda>j. ci_substring toLowerCase (search w) (company j) \<or>
              ci_substring toLowerCase (search w) (position j) \<or>
              ci_substring toLowerCase (search w) (location j))"
    by (rule ext) (rule job_matches_iff)
  then show ?thesis by (auto simp: filteredJobs_def)
qed

section \<open>Status boards and order: proofs\<close>










text \<open>
  Claim C10. With the empty search string the filter keeps every job (the lower-cased
  empty string being empty), and for every search string the filtered list is a
  subsequence of the list of jobs: the jobs kept stay in their relative order.
\<close>

theorem filter_empty_search_and_order:
  "(toLowerCase [] = [] \<longrightarrow> filteredJobs toLowerCase (jobs w) [] = jobs w)
   \<and> subseq (filteredJobs toLowerCase (jobs w) (search w)) (jobs w)"
  by (simp add: filteredJobs_def job_matches_def includes_empty)

theorem filter_empty_search_and_order_witness:
  "toLowerCase_ascii [] = []
   \<and> filteredJobs toLowerCase_ascii (jobs (dashboard0\<lparr>jobs := [job_acme, job_initech]\<rparr>)) [] = [job_acme, job_initech]
   \<and> filteredJobs toLowerCase_ascii [job_acme, job_initech] ''aUs'' = [job_initech]
   \<and> subseq (filteredJobs toLowerCase_ascii (jobs (dashboard0\<lparr>jobs := [job_acme, job_initech], search := ''aUs''\<rparr>)) (search (dashboard0\<lparr>jobs := [job_acme, job_initech], search := ''aUs''\<rparr>))) [job_acme, job_initech]"
proof -
  have 1: "toLowerCase_ascii [] = []" by (simp add: toLowerCase_ascii_def)
  have 2: "filteredJobs toLowerCase_ascii [job_acme, job_initech] ''aUs'' = [job_initech]"
    by (simp add: filteredJobs_def job_matches_def toLowerCase_ascii_def lower_ascii_def job_acme_def job_initech_def)
  show ?thesis
    using filter_empty_search_and_order [of toLowerCase_ascii "dashboard0\<lparr>jobs := [job_acme, job_initech], search := ''aUs''\<rparr>"] 1 2
    by simp
qed


section \<open>Effects: unfolding\<close>

lemmas effect_defs =
  try_catch_def and_then_def enableNetwork_def disableNetwork_def onSnapshot_def
  unsubscribe_def updateDoc_def addDoc_def logout_def navigate_def toast_success_def
  toast_error_def console_error_def Let_def

lemma handleSubmit_calls:
  "calls (snd (handleSubmit usr job now now' oc w)) =
     calls w @
       [if editingJob w \<noteq> None
        then UpdateDoc (job_id job) (job\<lparr>userId := map_option uid usr, updatedAt := Some now\<rparr>)
        else AddDoc (job\<lparr>userId := map_option uid usr, createdAt := Some now, updatedAt := Some now'\<rparr>)]"
  by (simp add: handleSubmit_def effect_defs)

lemma submit_form_calls:
  "calls (submit_form usr fd u t now now' oc w) =
     calls (snd (handleSubmit usr (JobForm_handleSubmit (editingJob w) fd u t) now now' oc w))"
  by (simp add: submit_form_def onClose_def)

section \<open>Form submission: proofs\<close>

text \<open>
  Claim C3. When no job is being edited, a submission of the form sends one \<open>addDoc\<close>
  whose data carries the random UUID as its id, the clock reading of the form as its
  appliedDate, and the two clock readings of the create handler as createdAt and updatedAt.
\<close>

theorem create_assigns_id_and_timestamps:
  "editingJob w = None \<Longrightarrow>
   \<exists>data. calls (submit_form usr formData randomUUID formNow now now' oc w) = calls w @ [AddDoc data]
     \<and> job_id data = Some randomUUID \<and> appliedDate data = Some formNow
     \<and> createdAt data = Some now \<and> updatedAt data = Some now'"
  by (simp add: submit_form_calls handleSubmit_calls JobForm_handleSubmit_def js_or_def)

theorem create_assigns_id_and_timestamps_witness:
  "editingJob dashboard0 = None \<and>
   (\<exists>data. calls (submit_form (Some \<lparr>uid = ''alice''\<rparr>) (initial_formData None)
                     ''3f2a'' ''T0'' ''T1'' ''T2'' all_ok dashboard0) = calls dashboard0 @ [AddDoc data]
      \<and> job_id data = Some ''3f2a'' \<and> appliedDate data = Some ''T0''
      \<and> createdAt data = Some ''T1'' \<and> updatedAt data = Some ''T2'')"
proof -
  have 1: "editingJob dashboard0 = None" by (simp add: dashboard0_def)
  show ?thesis
    using create_assigns_id_and_timestamps [OF 1, of "Some \<lparr>uid = ''alice''\<rparr>"
        "initial_formData None" "''3f2a''" "''T0''" "''T1''" "''T2''" all_ok] 1
    by simp
qed

text \<open>
  Claim C4 as stated, that the update takes every field other than updatedAt from the
  submitted form data, fails for \<open>userId\<close>: when the user bob submits an edit of a job whose
  \<open>userId\<close> is alice, the data sent has the \<open>userId\<close> bob, so it is not the submitted job
  with only updatedAt replaced.
\<close>

theorem update_all_other_fields_counterexample:
  "editingJob (dashboard0\<lparr>editingJob := Some job_acme\<rparr>) \<noteq> None \<and>
   calls (snd (handleSubmit (Some \<lparr>uid = ''bob''\<rparr>) job_acme ''T1'' ''T2'' all_ok
                 (dashboard0\<lparr>editingJob := Some job_acme\<rparr>)))
     = [UpdateDoc (Some ''7b1f'') (job_acme\<lparr>userId := Some ''bob'', updatedAt := Some ''T1''\<rparr>)] \<and>
   userId (job_acme\<lparr>userId := Some ''bob'', updatedAt := Some ''T1''\<rparr>) \<noteq> userId job_acme \<and>
   job_acme\<lparr>userId := Some ''bob'', updatedAt := Some ''T1''\<rparr> \<noteq> job_acme\<lparr>updatedAt := Some ''T1''\<rparr>"
  by (simp add: handleSubmit_calls dashboard0_def job_acme_def)

text \<open>
  Claim C4, amended. When a job is being edited, \<open>handleSubmit\<close> sends one \<open>updateDoc\<close>,
  addressed by the id of the submitted job, whose data has the current time as updatedAt
  and the uid of the current user (\<open>undefined\<close> without a user) as userId, and agrees with
  the submitted form data on every other field.
\<close>

theorem update_refreshes_updatedAt:
  "editingJob w \<noteq> None \<Longrightarrow>
   \<exists>data. calls (snd (handleSubmit usr job now now' oc w)) = calls w @ [UpdateDoc (job_id job) data]
     \<and> updatedAt data = Some now
     \<and> userId data = map_option uid usr
     \<and> data\<lparr>userId := userId job, updatedAt := updatedAt job\<rparr> = job"
  by (simp add: handleSubmit_calls)

theorem update_refreshes_updatedAt_witness:
  "editingJob (dashboard0\<lparr>editingJob := Some job_acme\<rparr>) \<noteq> None \<and>
   (\<exists>data. calls (snd (handleSubmit (Some \<lparr>uid = ''alice''\<rparr>) (job_acme\<lparr>status := REJECTED\<rparr>) ''T1'' ''T2'' all_ok
                         (dashboard0\<lparr>editingJob := Some job_acme\<rparr>)))
        = calls (dashboard0\<lparr>editingJob := Some job_acme\<rparr>) @ [UpdateDoc (job_id (job_acme\<lparr>status := REJECTED\<rparr>)) data]
     \<and> updatedAt data = Some ''T1''
     \<and> userId data = Some ''alice''
     \<and> data\<lparr>userId := userId (job_acme\<lparr>status := REJECTED\<rparr>), updatedAt := updatedAt (job_acme\<lparr>status := REJECTED\<rparr>)\<rparr> = job_acme\<lparr>status := REJECTED\<rparr>)"
proof -
  have 1: "editingJob (dashboard0\<lparr>editingJob := Some job_acme\<rparr>) \<noteq> None" by simp
  show ?thesis
    using update_refreshes_updatedAt [OF 1, of "Some \<lparr>uid = ''alice''\<rparr>" "job_acme\<lparr>status := REJECTED\<rparr>" "''T1''" "''T2''" all_ok]
    by simp
qed

text \<open>
  Claim C8 as stated fails for an edited job whose appliedDate or id is the empty string:
  \<open>||\<close> takes the fresh value. The job \<open>job_initech\<close> has the appliedDate \<open>''''\<close>.
\<close>

theorem edit_keeps_id_and_appliedDate_counterexample:
  "appliedDate job_initech = Some '''' \<and>
   appliedDate (JobForm_handleSubmit (Some job_initech) (initial_formData (Some job_initech))
                  ''3f2a'' ''T0'') = Some ''T0'' \<and>
   appliedDate (JobForm_handleSubmit (Some job_initech) (initial_formData (Some job_initech))
                  ''3f2a'' ''T0'') \<noteq> appliedDate job_initech \<and>
   job_id (JobForm_handleSubmit (Some (job_initech\<lparr>job_id := Some ''''\<rparr>))
             (initial_formData (Some (job_initech\<lparr>job_id := Some ''''\<rparr>))) ''3f2a'' ''T0'')
     \<noteq> job_id (job_initech\<lparr>job_id := Some ''''\<rparr>)"
  by (simp add: JobForm_handleSubmit_def js_or_def job_initech_def initial_formData_def)

text \<open>
  Claim C8, amended. When an existing job is edited, the submitted record reuses the id
  of the job if that is a non-empty string, and its appliedDate if that is a non-empty
  string, whatever the form data hold; an id or appliedDate that is missing or empty is
  replaced by the random UUID, respectively by the current time.
\<close>

theorem edit_keeps_nonempty_id_and_appliedDate:
  "(job_id j = Some i \<and> i \<noteq> [] \<longrightarrow>
      job_id (JobForm_handleSubmit (Some j) formData randomUUID now) = Some i)
   \<and> (appliedDate j = Some d \<and> d \<noteq> [] \<longrightarrow>
      appliedDate (JobForm_handleSubmit (Some j) formData randomUUID now) = Some d)
   \<and> (job_id j = None \<or> job_id j = Some [] \<longrightarrow>
      job_id (JobForm_handleSubmit (Some j) formData randomUUID now) = Some randomUUID)
   \<and> (appliedDate j = None \<or> appliedDate j = Some [] \<longrightarrow>
      appliedDate (JobForm_handleSubmit (Some j) formData randomUUID now) = Some now)"
  by (auto simp: JobForm_handleSubmit_def js_or_def)

theorem edit_keeps_nonempty_id_and_appliedDate_witness:
  "job_id job_acme = Some ''7b1f'' \<and> ''7b1f'' \<noteq> [] \<and>
   job_id (JobForm_handleSubmit (Some job_acme) (edit_form [ChangeStatus Opt_Rejected] (initial_formData (Some job_acme))) ''3f2a'' ''T0'') = Some ''7b1f'' \<and>
   appliedDate job_acme = Some ''2024-01-05T10:00:00.000Z'' \<and> ''2024-01-05T10:00:00.000Z'' \<noteq> [] \<and>
   appliedDate (JobForm_handleSubmit (Some job_acme) (edit_form [ChangeStatus Opt_Rejected] (initial_formData (Some job_acme))) ''3f2a'' ''T0'') = Some ''2024-01-05T10:00:00.000Z'' \<and>
   appliedDate job_initech = Some [] \<and>
   appliedDate (JobForm_handleSubmit (Some job_initech) (initial_formData (Some job_initech)) ''3f2a'' ''T0'') = Some ''T0''"
proof -
  have a: "job_id job_acme = Some ''7b1f''" "appliedDate job_acme = Some ''2024-01-05T10:00:00.000Z''"
    by (simp_all add: job_acme_def)
  have b: "appliedDate job_initech = Some []" by (simp add: job_initech_def)
  show ?thesis
    using edit_keeps_nonempty_id_and_appliedDate [where j = job_acme and i = "''7b1f''"
        and d = "''2024-01-05T10:00:00.000Z''" and randomUUID = "''3f2a''" and now = "''T0''"
        and formData = "edit_form [ChangeStatus Opt_Rejected] (initial_formData (Some job_acme))"]
      edit_keeps_nonempty_id_and_appliedDate [where j = job_initech and randomUUID = "''3f2a''"
        and now = "''T0''" and formData = "initial_formData (Some job_initech)"]
      a b
    by simp
qed

text \<open>
  Claim C9. The job handed over by a form submission always has a defined notes string:
  the notes of the form data, or the empty string when they are undefined or empty. A form
  opened without a job starts with the status PENDING and with the empty string in
  company, position, location, salary, both dates, notes and url.
\<close>

theorem notes_defined_and_form_defaults:
  "job_notes (JobForm_handleSubmit job formData randomUUID now)
     = Some (case job_notes formData of None \<Rightarrow> '''' | Some s \<Rightarrow> s)
   \<and> initial_formData None =
       \<lparr>job_id = None, company = '''', position = '''', status = PENDING, location = '''',
        salary = Some '''', applicationDeadline = Some '''', interviewDate = Some '''',
        job_notes = Some '''', url = Some '''', appliedDate = None, createdAt = None,
        updatedAt = None, userId = None\<rparr>"
  by (simp add: JobForm_handleSubmit_def js_or_def initial_formData_def split: option.split)

section \<open>The invariant of the jobs: proofs\<close>

lemma option_value_in_JobStatus: "option_value opt \<in> set JobStatus"
  by (cases opt) (simp_all add: JobStatus_def)

lemma status_onChange:
  "status fd \<in> set JobStatus \<Longrightarrow> status (onChange e fd) \<in> set JobStatus"
  by (cases e) (simp_all add: option_value_in_JobStatus)

lemma status_edit_form:
  "status fd \<in> set JobStatus \<Longrightarrow> status (edit_form events fd) \<in> set JobStatus"
  unfolding edit_form_def
  by (induction events arbitrary: fd) (simp_all add: status_onChange)






section \<open>Failures and the network: proofs\<close>

lemma new_calls_append: "calls w' = calls w @ cs \<Longrightarrow> new_calls w w' = cs"
  by (simp add: new_calls_def)

lemma setupFirestore_cases:
  "setupFirestore u oc w =
     (if enableNetwork_ok oc \<and> onSnapshot_ok oc
      then (Inr True, w\<lparr>calls := calls w @ [EnableNetwork, OnSnapshot (uid u)],
                         network := True, listening := True\<rparr>)
      else if enableNetwork_ok oc
      then (Inr False, w\<lparr>calls := calls w @ [EnableNetwork, OnSnapshot (uid u)],
                          network := True,
                          console := console w @ [''Error setting up Firestore:''],
                          toasts := toasts w @ [Toast_error ''Error loading data'']\<rparr>)
      else (Inr False, w\<lparr>calls := calls w @ [EnableNetwork],
                          console := console w @ [''Error setting up Firestore:''],
                          toasts := toasts w @ [Toast_error ''Error loading data'']\<rparr>))"
  by (simp add: setupFirestore_def effect_defs)

lemma handleLogout_cases:
  "handleLogout oc w =
     (if disableNetwork_ok oc \<and> logout_ok oc
      then (Inr (), w\<lparr>calls := calls w @ [DisableNetwork, Logout, Navigate ''/''],
                        network := False, route := Some ''/''\<rparr>)
      else if disableNetwork_ok oc
      then (Inr (), w\<lparr>calls := calls w @ [DisableNetwork, Logout], network := False,
                        toasts := toasts w @ [Toast_error ''Error logging out'']\<rparr>)
      else (Inr (), w\<lparr>calls := calls w @ [DisableNetwork],
                        toasts := toasts w @ [Toast_error ''Error logging out'']\<rparr>))"
  by (simp add: handleLogout_def effect_defs)

lemma handleSubmit_cases:
  "handleSubmit usr job now now' oc w =
     (if editingJob w \<noteq> None
      then (let c = UpdateDoc (job_id job) (job\<lparr>userId := map_option uid usr, updatedAt := Some now\<rparr>)
            in if updateDoc_ok oc
               then (Inr (), w\<lparr>calls := calls w @ [c],
                                 toasts := toasts w @ [Toast_success ''Job updated successfully''],
                                 showForm := False, editingJob := None\<rparr>)
               else (Inr (), w\<lparr>calls := calls w @ [c],
                                 console := console w @ [''Error saving job:''],
                                 toasts := toasts w @ [Toast_error ''Error saving job'']\<rparr>))
      else (let c = AddDoc (job\<lparr>userId := map_option uid usr, createdAt := Some now, updatedAt := Some now'\<rparr>)
            in if addDoc_ok oc
               then (Inr (), w\<lparr>calls := calls w @ [c],
                                 toasts := toasts w @ [Toast_success ''Job added successfully''],
                                 showForm := False, editingJob := None\<rparr>)
               else (Inr (), w\<lparr>calls := calls w @ [c],
                                 console := console w @ [''Error saving job:''],
                                 toasts := toasts w @ [Toast_error ''Error saving job'']\<rparr>)))"
  by (simp add: handleSubmit_def effect_defs)

lemma caught_setupFirestore: "caught ''Error loading data'' oc w (setupFirestore u oc w)"
  by (auto simp: caught_def setupFirestore_cases new_calls_def)

lemma caught_handleLogout: "caught ''Error logging out'' oc w (handleLogout oc w)"
  by (simp add: caught_def handleLogout_cases new_calls_def)

lemma caught_handleSubmit: "caught ''Error saving job'' oc w (handleSubmit usr job now now' oc w)"
  by (simp add: caught_def handleSubmit_cases new_calls_def Let_def)

text \<open>
  Claim C6. Whatever calls the environment rejects, each of the three handlers
  (\<open>setupFirestore\<close>, \<open>handleSubmit\<close>, \<open>handleLogout\<close>) returns normally, so that no failure
  leaves it and the application goes on; a rejected call is answered by one error toast
  of the handler; and the handler makes no call a second time.
\<close>

theorem failures_caught_and_toasted:
  "caught ''Error loading data'' oc w (setupFirestore u oc w)
   \<and> caught ''Error saving job'' oc w (handleSubmit usr job now now' oc w)
   \<and> caught ''Error logging out'' oc w (handleLogout oc w)"
  using caught_setupFirestore caught_handleSubmit caught_handleLogout by blast

theorem failures_caught_and_toasted_witness:
  "setupFirestore \<lparr>uid = ''alice''\<rparr> all_fail dashboard0 =
     (Inr False, dashboard0\<lparr>calls := [EnableNetwork],
                   console := [''Error setting up Firestore:''],
                   toasts := [Toast_error ''Error loading data'']\<rparr>)
   \<and> caught ''Error loading data'' all_fail dashboard0 (setupFirestore \<lparr>uid = ''alice''\<rparr> all_fail dashboard0)
   \<and> toasts (snd (handleSubmit (Some \<lparr>uid = ''alice''\<rparr>) job_acme ''T1'' ''T2'' all_fail dashboard0))
       = [Toast_error ''Error saving job'']
   \<and> caught ''Error saving job'' all_fail dashboard0
        (handleSubmit (Some \<lparr>uid = ''alice''\<rparr>) job_acme ''T1'' ''T2'' all_fail dashboard0)
   \<and> handleLogout all_fail dashboard0 =
       (Inr (), dashboard0\<lparr>calls := [DisableNetwork], toasts := [Toast_error ''Error logging out'']\<rparr>)
   \<and> caught ''Error logging out'' all_fail dashboard0 (handleLogout all_fail dashboard0)"
proof -
  have 1: "setupFirestore \<lparr>uid = ''alice''\<rparr> all_fail dashboard0 =
     (Inr False, dashboard0\<lparr>calls := [EnableNetwork],
                   console := [''Error setting up Firestore:''],
                   toasts := [Toast_error ''Error loading data'']\<rparr>)"
    by (simp add: setupFirestore_cases all_fail_def dashboard0_def)
  have 2: "toasts (snd (handleSubmit (Some \<lparr>uid = ''alice''\<rparr>) job_acme ''T1'' ''T2'' all_fail dashboard0))
       = [Toast_error ''Error saving job'']"
    by (simp add: handleSubmit_cases all_fail_def dashboard0_def)
  have 3: "handleLogout all_fail dashboard0 =
       (Inr (), dashboard0\<lparr>calls := [DisableNetwork], toasts := [Toast_error ''Error logging out'']\<rparr>)"
    by (simp add: handleLogout_cases all_fail_def dashboard0_def)
  show ?thesis
    using failures_caught_and_toasted [of all_fail dashboard0 "\<lparr>uid = ''alice''\<rparr>"
        "Some \<lparr>uid = ''alice''\<rparr>" job_acme "''T1''" "''T2''"] 1 2 3
    by simp
qed

lemma useEffect_Some:
  "useEffect (Some u) oc w =
     (snd (setupFirestore u oc w))\<lparr>cleanup := Some (fst (setupFirestore u oc w))\<rparr>"
  by (simp add: useEffect_def split: prod.split)

lemma cleanup_step: "while_mounted e \<Longrightarrow> cleanup (step w e) = cleanup w"
  by (cases e)
    (simp_all add: onSnapshot_callback_def submit_form_def onClose_def handleSubmit_cases
      handleLogout_cases Let_def)

lemma cleanup_run: "list_all while_mounted events \<Longrightarrow> cleanup (run w events) = cleanup w"
  unfolding run_def
  by (induction events arbitrary: w) (simp_all add: cleanup_step)

lemma cleanup_useEffect: "\<exists>unsub. cleanup (useEffect (Some u) oc w) = Some (Inr unsub)"
  by (auto simp: useEffect_Some setupFirestore_cases)

lemma useEffect_cleanup_network:
  "cleanup w = Some (Inr unsub) \<Longrightarrow> disableNetwork_ok oc \<Longrightarrow> \<not> network (useEffect_cleanup oc w)"
  by (simp add: useEffect_cleanup_def effect_defs)

text \<open>
  Claim C7. Handlers run one after the other. Mounting the Dashboard with a logged-in user
  first enables the network and creates the subscription only after that has succeeded.
  Whatever happens while the Dashboard stays mounted, unmounting it disables the network:
  if that call succeeds, the network is disabled afterwards. A logout whose
  \<open>disableNetwork\<close> succeeds, in particular one that completes without an error toast,
  leaves the network disabled.
\<close>

theorem network_toggled:
  "calls (useEffect (Some u) oc w) =
     calls w @ (if enableNetwork_ok oc then [EnableNetwork, OnSnapshot (uid u)] else [EnableNetwork])
   \<and> (enableNetwork_ok oc \<longrightarrow> network (useEffect (Some u) oc w))
   \<and> (list_all while_mounted events \<and> disableNetwork_ok oc' \<longrightarrow>
        \<not> network (useEffect_cleanup oc' (run (useEffect (Some u) oc w) events)))
   \<and> (disableNetwork_ok oc \<longrightarrow> \<not> network (snd (handleLogout oc w)))
   \<and> (toasts (snd (handleLogout oc w)) = toasts w \<longrightarrow> \<not> network (snd (handleLogout oc w)))"
proof -
  have 1: "calls (useEffect (Some u) oc w) =
     calls w @ (if enableNetwork_ok oc then [EnableNetwork, OnSnapshot (uid u)] else [EnableNetwork])"
    by (simp add: useEffect_Some setupFirestore_cases)
  have 2: "enableNetwork_ok oc \<longrightarrow> network (useEffect (Some u) oc w)"
    by (simp add: useEffect_Some setupFirestore_cases)
  have 3: "list_all while_mounted events \<and> disableNetwork_ok oc' \<longrightarrow>
        \<not> network (useEffect_cleanup oc' (run (useEffect (Some u) oc w) events))"
  proof
    assume a: "list_all while_mounted events \<and> disableNetwork_ok oc'"
    obtain unsub where "cleanup (useEffect (Some u) oc w) = Some (Inr unsub)"
      using cleanup_useEffect by blast
    with a have "cleanup (run (useEffect (Some u) oc w) events) = Some (Inr unsub)"
      by (simp add: cleanup_run)
    with a show "\<not> network (useEffect_cleanup oc' (run (useEffect (Some u) oc w) events))"
      by (simp add: useEffect_cleanup_network)
  qed
  have 4: "disableNetwork_ok oc \<longrightarrow> \<not> network (snd (handleLogout oc w))"
    by (simp add: handleLogout_cases)
  have 5: "toasts (snd (handleLogout oc w)) = toasts w \<longrightarrow> \<not> network (snd (handleLogout oc w))"
    by (simp add: handleLogout_cases)
  from 1 2 3 4 5 show ?thesis by blast
qed

theorem network_toggled_witness:
  "list_all while_mounted [Snapshot [(''d1'', job_acme)], ClickAdd, TypeSearch ''acme'']
   \<and> disableNetwork_ok all_ok \<and> enableNetwork_ok all_ok
   \<and> calls (useEffect (Some \<lparr>uid = ''alice''\<rparr>) all_ok (dashboard0\<lparr>network := False\<rparr>))
       = [EnableNetwork, OnSnapshot ''alice'']
   \<and> network (useEffect (Some \<lparr>uid = ''alice''\<rparr>) all_ok (dashboard0\<lparr>network := False\<rparr>))
   \<and> \<not> network (useEffect_cleanup all_ok
          (run (useEffect (Some \<lparr>uid = ''alice''\<rparr>) all_ok (dashboard0\<lparr>network := False\<rparr>))
             [Snapshot [(''d1'', job_acme)], ClickAdd, TypeSearch ''acme'']))
   \<and> \<not> network (snd (handleLogout all_ok (dashboard0\<lparr>network := False\<rparr>)))"
proof -
  have 1: "list_all while_mounted [Snapshot [(''d1'', job_acme)], ClickAdd, TypeSearch ''acme'']"
    by simp
  have 2: "disableNetwork_ok all_ok" "enableNetwork_ok all_ok" by (simp_all add: all_ok_def)
  have 3: "calls (dashboard0\<lparr>network := False\<rparr>) = []" by (simp add: dashboard0_def)
  show ?thesis
    using network_toggled [where u = "\<lparr>uid = ''alice''\<rparr>" and oc = all_ok and oc' = all_ok
        and w = "dashboard0\<lparr>network := False\<rparr>"
        and events = "[Snapshot [(''d1'', job_acme)], ClickAdd, TypeSearch ''acme'']"] 1 2 3
    by simp
qed

lemma run_example:
  "calls (run dashboard0 [Mount (Some \<lparr>uid = ''alice''\<rparr>) all_ok, ClickLogout all_ok, Unmount all_ok])
     = [EnableNetwork, OnSnapshot ''alice'', DisableNetwork, Logout, Navigate ''/'', Unsubscribe, DisableNetwork]"
  by (simp add: run_def useEffect_Some setupFirestore_cases handleLogout_cases all_ok_def
      dashboard0_def useEffect_cleanup_def effect_defs)

section \<open>The invariant of the jobs over runs: proofs\<close>

















end
